theory Spec2Isabelle
  imports Complex_Main
begin

section \<open>DynamicBot: a shallow embedding of autobot.py\<close>

text \<open>
  The bot stakes once per block on the subnet with the best preference-adjusted score and
  listens to Telegram commands that change its configuration. The embedding follows
  \<^verbatim>\<open>src/autobot.py\<close> function by function and keeps its names.

  Conventions of the embedding:
  \<^item> Python \<^verbatim>\<open>float\<close> values are idealised as \<^typ>\<open>real\<close>: arithmetic is exact, there is
    no rounding, no infinity and no NaN. Python \<^verbatim>\<open>int\<close> values are \<^typ>\<open>int\<close>.
  \<^item> An exception is a value of type \<open>error\<close>; a function that can raise returns
    \<open>error option\<close> (\<open>Some e\<close>: raised \<open>e\<close>) next to the state it leaves behind, or a sum.
  \<^item> Everything the program does to the outside (gateway sessions, stake calls, HTTP
    requests, console panels, sleeps) is appended to a trace of \<open>effect\<close>s in the state.
  \<^item> What the outside answers (gateway replies, HTTP outcomes, the clock) is read from
    a record \<open>world\<close>, one per handled message or block-cycle iteration. The built-in
    conversions \<^verbatim>\<open>int(token)\<close> and \<^verbatim>\<open>float(token)\<close> are parameters in the same record.
  \<^item> The two coroutines are modelled one activation at a time; interleaving at
    \<^verbatim>\<open>await\<close> points is not part of the model.
  \<^item> Message texts built by f-strings are values of the datatype \<open>reply\<close>, which carry
    the interpolated numbers instead of their decimal rendering.
\<close>

subsection \<open>Python built-ins used by the program\<close>

text \<open>\<^verbatim>\<open>str(n)\<close> for an integer: decimal digits, with a leading minus sign.\<close>

definition digit_char :: "nat \<Rightarrow> char" where
  "digit_char d = ''0123456789'' ! d"

function str_nat :: "nat \<Rightarrow> string" where
  "str_nat n = (if n < 10 then [digit_char n] else str_nat (n div 10) @ [digit_char (n mod 10)])"
  by pat_completeness auto
termination
  by (relation "measure id") auto

declare str_nat.simps [simp del]

definition str_int :: "int \<Rightarrow> string" where
  "str_int i = (if i < 0 then CHR ''-'' # str_nat (nat (- i)) else str_nat (nat i))"

text \<open>
  \<^verbatim>\<open>text.strip().split()\<close>: the maximal runs of non-whitespace characters. The text is
  taken to be ASCII; the whitespace characters are tab, line feed, vertical tab, form
  feed, carriage return, the four separators 0x1C to 0x1F, and space.
\<close>

definition is_space :: "char \<Rightarrow> bool" where
  "is_space c \<longleftrightarrow>
     c \<in> set [CHR 0x09, CHR 0x0A, CHR 0x0B, CHR 0x0C, CHR 0x0D,
              CHR 0x1C, CHR 0x1D, CHR 0x1E, CHR 0x1F, CHR 0x20]"

fun split_from :: "string \<Rightarrow> string \<Rightarrow> string list" where
  "split_from [] cur = (if cur = [] then [] else [cur])"
| "split_from (c # cs) cur =
     (if is_space c
      then (if cur = [] then split_from cs [] else cur # split_from cs [])
      else split_from cs (cur @ [c]))"

definition py_split :: "string \<Rightarrow> string list" where
  "py_split s = split_from s []"

text \<open>\<^verbatim>\<open>token.lower()\<close> on ASCII text.\<close>

definition lower_char :: "char \<Rightarrow> char" where
  "lower_char c =
     (case map_of (zip ''ABCDEFGHIJKLMNOPQRSTUVWXYZ'' ''abcdefghijklmnopqrstuvwxyz'') c of
        None \<Rightarrow> c | Some l \<Rightarrow> l)"

definition py_lower :: "string \<Rightarrow> string" where
  "py_lower s = map lower_char s"

text \<open>
  A dictionary whose items are iterated: an association list in insertion order.
  \<^verbatim>\<open>d[k] = v\<close> overwrites in place when the key is present and appends otherwise.
\<close>

fun dict_set :: "('k \<times> 'v) list \<Rightarrow> 'k \<Rightarrow> 'v \<Rightarrow> ('k \<times> 'v) list" where
  "dict_set [] k v = [(k, v)]"
| "dict_set ((k', v') # kvs) k v =
     (if k' = k then (k, v) # kvs else (k', v') # dict_set kvs k v)"

text \<open>\<^verbatim>\<open>sum(d.values())\<close> and the sum over a generator: left to right from 0.\<close>

definition py_sum :: "real list \<Rightarrow> real" where
  "py_sum xs = foldl (+) 0 xs"

subsection \<open>Errors\<close>

datatype error =
    ValueError
  | IndexError
  | KeyError
  | AttributeError
  | ZeroDivisionError
  | RemoteError string
  | RetryError error
  | ConnectFailed "error option"

text \<open>
  \<open>RemoteError\<close> is any exception raised by the chain gateway or the HTTP library, by
  its text. \<open>RetryError e\<close> is what the \<^verbatim>\<open>tenacity\<close> decorator raises after the last
  attempt failed with \<open>e\<close>. \<open>ConnectFailed last_error\<close> is
  \<^verbatim>\<open>Exception(f"Failed to connect to any endpoints. Last error: {last_error}")\<close>.
\<close>

subsection \<open>Data model\<close>

text \<open>
  A subnet as returned by \<^verbatim>\<open>sub.all_subnets()\<close>. \<open>price\<close> is the result of
  \<^verbatim>\<open>float(s.price)\<close>, \<open>None\<close> when the conversion raises (the program guards it with
  \<^verbatim>\<open>try\<close> in several places).
\<close>

record subnet =
  netuid :: int
  subnet_name :: string
  price :: "real option"
  tao_in_emission :: real
  symbol :: string

text \<open>
  An element of \<^verbatim>\<open>sub.get_stake_for_coldkey(...)\<close>; \<open>stake\<close> is the result of
  \<^verbatim>\<open>float(stake.stake)\<close>, \<open>None\<close> when the conversion raises.
\<close>

record stake_info =
  stake_netuid :: int
  hotkey_ss58 :: string
  stake :: "real option"

type_synonym pref_map = "string \<rightharpoonup> real"

text \<open>The \<^verbatim>\<open>purchase_event\<close> dictionary of \<^verbatim>\<open>process_block\<close>.\<close>

record purchase_event =
  ev_block :: int
  ev_netuid :: int
  ev_subnet_name :: string
  ev_stake_amount :: real
  ev_score :: real
  ev_pref_multiplier :: real

text \<open>The \<^verbatim>\<open>current_snapshot\<close> dictionary of the \<^verbatim>\<open>/history\<close> command.\<close>

record snapshot =
  snap_time :: real
  snap_block :: int
  snap_wallet_balance :: real
  snap_stake_value :: real
  snap_stakes :: "(string \<times> real) list"

text \<open>The numbers of the summary line that \<^verbatim>\<open>build_display_table\<close> returns.\<close>

record summary =
  sum_wallet_balance :: real
  sum_total_price :: real
  sum_total_stake :: real
  sum_total_stake_value :: real

text \<open>The numbers of the \<^verbatim>\<open>history_msg\<close> text.\<close>

record history_report =
  time_diff :: real
  block_diff :: int
  amount_staked :: real
  stake_diff :: real
  pnl :: real
  increases :: "(string \<times> string \<times> real) list"

text \<open>The texts that the program sends, one constructor per f-string or literal.\<close>

datatype reply =
    InvalidCommand
  | BotPaused
  | BotResumed
  | ErrorInitializing error
  | ErrorBalanceInfo error
  | BalanceInfo real int "(int \<times> real) list option"
  | ErrorPortfolioInfo error
  | HistoryCreated
  | HistorySummary history_report
  | UsageNetuid
  | UsageNumericNetuid
  | ErrorSubnetData error
  | SubnetNotFound int
  | ErrorStakeInfo error
  | SubnetInfo int string real real string real int
  | NewPreference int real
  | Excluded int
  | AlreadyExcluded int
  | UsageUnstake
  | UsageUnstakeNumber
  | Unstaked real int
  | ErrorUnstaking int error
  | UsageStake
  | UsageStakeNumber
  | Staked real int
  | ErrorStaking int error
  | UsageAmount
  | NewStakeAmount real
  | StakingUpdate int summary "purchase_event list"

text \<open>
  \<open>BalanceInfo wallet_balance current_block lines\<close>: \<open>lines\<close> is \<open>None\<close> for
  "No stakes found." and otherwise the (subnet, amount) lines under "Staked Amounts by
  Subnet". \<open>SubnetInfo netuid name price my_stake symbol current_pref current_block\<close>.
  \<open>StakingUpdate current_block summary purchase_history\<close> is the text of
  \<^verbatim>\<open>build_telegram_update_message\<close>.
\<close>

type_synonym endpoint = string

text \<open>A gateway handle: the \<^verbatim>\<open>async_subtensor\<close> object opened for an endpoint.\<close>

datatype handle = Handle endpoint

datatype stake_action =
    NoAction
  | StakeOf real real real
  | StakeError error
  | Paused

datatype panel =
    TelegramError error
  | TelegramPollError error
  | ProcessBlockError error

datatype effect =
    OpenSession endpoint nat
  | TestSession endpoint
  | CloseSession handle
  | Backoff
  | AddStake handle string int real
  | Unstake handle string int real
  | WaitForBlock handle
  | HttpPost int reply
  | GetUpdates int
  | Sleep nat
  | ConsolePanel panel
  | Display summary "int option" stake_action

text \<open>
  \<open>OpenSession ep n\<close>: \<^verbatim>\<open>bt.async_subtensor(ep)\<close> and \<^verbatim>\<open>sub.initialize()\<close> in
  attempt \<open>n\<close> of the retry decorator; \<open>TestSession\<close>: the verifying
  \<^verbatim>\<open>get_current_block\<close>; \<open>Backoff\<close>: the decorator's wait between two attempts;
  \<open>AddStake sub validator netuid amount\<close> and \<open>Unstake\<close>: the two mutation calls;
  \<open>HttpPost chat_id text\<close>: the request of \<^verbatim>\<open>send_telegram_message\<close>;
  \<open>Display summary chosen_netuid stake_action\<close>: the cleared console with the summary
  panel and the table.
\<close>

datatype attempt = InitFails error | VerifyFails error | Works

record world =
  w_connect :: "endpoint \<Rightarrow> nat \<Rightarrow> attempt"
  w_current_block :: "error + int"
  w_all_subnets :: "error + subnet list"
  w_stake_for_coldkey :: "error + stake_info list"
  w_stake_refresh :: "error + stake_info list"
  w_balance :: "error + real"
  w_add_stake :: "error option"
  w_unstake :: "error option"
  w_wait_for_block :: "error option"
  w_post :: "reply \<Rightarrow> error option"
  w_time :: real
  py_int :: "string \<Rightarrow> int option"
  py_float :: "string \<Rightarrow> real option"

text \<open>
  \<open>w_connect ep n\<close> is what happens in attempt \<open>n\<close> on endpoint \<open>ep\<close>: initialising
  raises, the verifying call raises, or both work. The query fields are the results of
  the gateway's read calls (\<open>Inl\<close>: the call raises); \<open>w_stake_refresh\<close> is the second
  \<^verbatim>\<open>get_stake_for_coldkey\<close> of a block cycle. \<open>w_add_stake\<close>, \<open>w_unstake\<close>,
  \<open>w_wait_for_block\<close> and \<open>w_post\<close> say whether the call raises. \<open>py_int\<close> and \<open>py_float\<close>
  are \<^verbatim>\<open>int(token)\<close> and \<^verbatim>\<open>float(token)\<close>, \<open>None\<close> for \<^verbatim>\<open>ValueError\<close>.
\<close>

record config =
  telegram_token :: "string option"
  telegram_chat_id :: "int option"
  validator :: string
  stake_amount :: real
  preferences :: pref_map
  exclude_list :: "int list"
  paused :: bool
  telegram_update_interval :: int

text \<open>
  The mutable state of the process: the configuration object, the two module globals,
  \<^verbatim>\<open>purchase_history\<close> (the list that \<^verbatim>\<open>main_loop\<close> creates and hands to every
  \<^verbatim>\<open>process_block\<close>), and the trace of effects so far.
\<close>

record bot_state =
  cfg :: config
  last_history_snapshot :: "snapshot option"
  accumulated_history :: "purchase_event list"
  purchase_history :: "purchase_event list"
  effects :: "effect list"

definition emit :: "effect list \<Rightarrow> bot_state \<Rightarrow> bot_state" where
  "emit evs st = st\<lparr>effects := effects st @ evs\<rparr>"

subsection \<open>Connection layer (lines 21-59)\<close>

definition ENDPOINTS :: "endpoint list" where
  "ENDPOINTS = [''finney'', ''subvortex'', ''archive'']"

text \<open>
  The body of \<^verbatim>\<open>get_and_test_subtensor\<close>, one attempt. \<^verbatim>\<open>sub.initialize()\<close> is
  outside the \<^verbatim>\<open>try\<close>: when it raises nothing is closed. When the verifying call
  raises, the session is closed and the exception raised again.
\<close>

definition attempt_once :: "world \<Rightarrow> endpoint \<Rightarrow> nat \<Rightarrow> (error + handle) \<times> effect list" where
  "attempt_once w ep n =
     (case w_connect w ep n of
        InitFails e \<Rightarrow> (Inl e, [OpenSession ep n])
      | VerifyFails e \<Rightarrow> (Inl e, [OpenSession ep n, TestSession ep, CloseSession (Handle ep)])
      | Works \<Rightarrow> (Inr (Handle ep), [OpenSession ep n, TestSession ep]))"

text \<open>
  The decorator \<^verbatim>\<open>@retry(stop=stop_after_attempt(3), wait=wait_exponential(...))\<close>:
  attempt \<open>n\<close> is made; when it raises and \<open>n\<close> has reached 3 the decorator raises
  \<open>RetryError\<close>, otherwise it waits and makes attempt \<open>n + 1\<close>.
\<close>

function retry_from :: "world \<Rightarrow> endpoint \<Rightarrow> nat \<Rightarrow> (error + handle) \<times> effect list" where
  "retry_from w ep n =
     (case attempt_once w ep n of
        (Inr sub, evs) \<Rightarrow> (Inr sub, evs)
      | (Inl e, evs) \<Rightarrow>
          if 3 \<le> n then (Inl (RetryError e), evs)
          else (case retry_from w ep (Suc n) of (r, evs') \<Rightarrow> (r, evs @ Backoff # evs')))"
  by pat_completeness auto
termination
  by (relation "measure (\<lambda>(w, ep, n). 3 - n)") auto

declare retry_from.simps [simp del]

definition get_and_test_subtensor :: "world \<Rightarrow> endpoint \<Rightarrow> (error + handle) \<times> effect list" where
  "get_and_test_subtensor w ep = retry_from w ep 1"

text \<open>The \<^verbatim>\<open>for endpoint in ENDPOINTS\<close> loop of \<^verbatim>\<open>get_working_subtensor\<close>.\<close>

fun try_endpoints ::
  "world \<Rightarrow> endpoint list \<Rightarrow> error option \<Rightarrow> (error + handle) \<times> effect list" where
  "try_endpoints w [] last_error = (Inl (ConnectFailed last_error), [])"
| "try_endpoints w (ep # eps) last_error =
     (case get_and_test_subtensor w ep of
        (Inr sub, evs) \<Rightarrow> (Inr sub, evs)
      | (Inl e, evs) \<Rightarrow>
          (case try_endpoints w eps (Some e) of (r, evs') \<Rightarrow> (r, evs @ evs')))"

definition get_working_subtensor :: "world \<Rightarrow> (error + handle) \<times> effect list" where
  "get_working_subtensor w = try_endpoints w ENDPOINTS None"

subsection \<open>send_telegram_message (lines 76-89)\<close>

text \<open>
  Truth values of Python: \<^verbatim>\<open>None\<close>, the empty string and 0 are false.
\<close>

definition truthy_str :: "string option \<Rightarrow> bool" where
  "truthy_str s \<longleftrightarrow> (case s of None \<Rightarrow> False | Some t \<Rightarrow> t \<noteq> [])"

definition truthy_int :: "int option \<Rightarrow> bool" where
  "truthy_int i \<longleftrightarrow> (case i of None \<Rightarrow> False | Some n \<Rightarrow> n \<noteq> 0)"

definition send_telegram_message :: "world \<Rightarrow> reply \<Rightarrow> config \<Rightarrow> int option \<Rightarrow> effect list" where
  "send_telegram_message w message c chat_id =
     (let chat_id' = (if truthy_int chat_id then chat_id else telegram_chat_id c)
      in if \<not> truthy_str (telegram_token c) \<or> \<not> truthy_int chat_id' then []
         else (case w_post w message of
                 None \<Rightarrow> [HttpPost (the chat_id') message]
               | Some e \<Rightarrow> [HttpPost (the chat_id') message, ConsolePanel (TelegramError e)]))"

definition send :: "world \<Rightarrow> reply \<Rightarrow> int option \<Rightarrow> bot_state \<Rightarrow> bot_state" where
  "send w message chat_id st = emit (send_telegram_message w message (cfg st) chat_id) st"

subsection \<open>select_best_subnet (lines 455-478)\<close>

text \<open>\<^verbatim>\<open>preferences.get(str(netuid), 1.0)\<close>\<close>

definition pref_get :: "pref_map \<Rightarrow> int \<Rightarrow> real" where
  "pref_get prefs n = (case prefs (str_int n) of None \<Rightarrow> 1 | Some v \<Rightarrow> v)"

text \<open>
  The \<^verbatim>\<open>for\<close> loop, with \<open>(best_subnet, best_score)\<close> as the loop state. Each
  \<^verbatim>\<open>continue\<close> is a recursive call with the state unchanged.
\<close>

fun select_loop ::
  "subnet list \<Rightarrow> int list \<Rightarrow> pref_map \<Rightarrow> subnet option \<times> real \<Rightarrow> subnet option \<times> real" where
  "select_loop [] excl prefs best = best"
| "select_loop (s # ss) excl prefs (best_subnet, best_score) =
     (if netuid s = 0 \<or> netuid s \<in> set excl
      then select_loop ss excl prefs (best_subnet, best_score)
      else case price s of
        None \<Rightarrow> select_loop ss excl prefs (best_subnet, best_score)
      | Some p \<Rightarrow>
          if p \<le> 0 then select_loop ss excl prefs (best_subnet, best_score)
          else let score = tao_in_emission s / p;
                   pref_multiplier = pref_get prefs (netuid s);
                   effective_score = score * pref_multiplier
               in if effective_score > best_score
                  then select_loop ss excl prefs (Some s, effective_score)
                  else select_loop ss excl prefs (best_subnet, best_score))"

definition select_best_subnet ::
  "subnet list \<Rightarrow> int list \<Rightarrow> pref_map \<Rightarrow> subnet option \<times> real" where
  "select_best_subnet subnets excl prefs = select_loop subnets excl prefs (None, 0)"


definition effective_score :: "pref_map \<Rightarrow> subnet \<Rightarrow> real" where
  "effective_score prefs s =
     (case price s of None \<Rightarrow> 0 | Some p \<Rightarrow> tao_in_emission s / p * pref_get prefs (netuid s))"

subsection \<open>The command handler: /balance (lines 175-209)\<close>

text \<open>
  The three queries of the \<^verbatim>\<open>try\<close> block, in order; the first one that raises
  decides.
\<close>

definition balance_queries :: "world \<Rightarrow> error + (int \<times> stake_info list \<times> real)" where
  "balance_queries w =
     (case w_current_block w of Inl e \<Rightarrow> Inl e | Inr current_block \<Rightarrow>
      case w_stake_for_coldkey w of Inl e \<Rightarrow> Inl e | Inr stakes \<Rightarrow>
      case w_balance w of Inl e \<Rightarrow> Inl e | Inr wallet_balance \<Rightarrow>
        Inr (current_block, stakes, wallet_balance))"

text \<open>
  \<^verbatim>\<open>float(stake.stake)\<close> with its \<^verbatim>\<open>except\<close> branch.
\<close>

definition stake_amt_of :: "stake_info \<Rightarrow> real" where
  "stake_amt_of s = (case stake s of None \<Rightarrow> 0 | Some a \<Rightarrow> a)"

text \<open>
  The loop over \<^verbatim>\<open>stake_info\<close> that builds the lines. For a positive amount the
  f-string reads \<^verbatim>\<open>stake_info.symbol\<close>: \<^verbatim>\<open>stake_info\<close> is the list being iterated,
  a list has no attribute \<^verbatim>\<open>symbol\<close>, and the read raises \<^verbatim>\<open>AttributeError\<close>.
\<close>

fun balance_lines :: "stake_info list \<Rightarrow> (int \<times> real) list \<Rightarrow> error + (int \<times> real) list" where
  "balance_lines [] msg_lines = Inr msg_lines"
| "balance_lines (s # ss) msg_lines =
     (let stake_amt = stake_amt_of s
      in if stake_amt > 0 then Inl AttributeError else balance_lines ss msg_lines)"

definition cmd_balance :: "world \<Rightarrow> int \<Rightarrow> bot_state \<Rightarrow> error option \<times> bot_state" where
  "cmd_balance w chat_id st =
     (case get_working_subtensor w of
        (Inl e, evs) \<Rightarrow> (None, send w (ErrorInitializing e) (Some chat_id) (emit evs st))
      | (Inr sub, evs) \<Rightarrow>
          (case balance_queries w of
             Inl e \<Rightarrow>
               (None, emit [CloseSession sub] (send w (ErrorBalanceInfo e) (Some chat_id) (emit evs st)))
           | Inr (current_block, stakes, wallet_balance) \<Rightarrow>
               if stakes \<noteq> [] then
                 (case balance_lines stakes [] of
                    Inl e \<Rightarrow> (Some e, emit evs st)
                  | Inr msg_lines \<Rightarrow>
                      (None, emit [CloseSession sub]
                         (send w (BalanceInfo wallet_balance current_block (Some msg_lines))
                            (Some chat_id) (emit evs st))))
               else
                 (None, emit [CloseSession sub]
                    (send w (BalanceInfo wallet_balance current_block None)
                       (Some chat_id) (emit evs st)))))"

subsection \<open>The command handler: /history (lines 211-291)\<close>

definition history_queries :: "world \<Rightarrow> error + (int \<times> subnet list \<times> stake_info list \<times> real)" where
  "history_queries w =
     (case w_current_block w of Inl e \<Rightarrow> Inl e | Inr current_block \<Rightarrow>
      case w_all_subnets w of Inl e \<Rightarrow> Inl e | Inr subnets \<Rightarrow>
      case w_stake_for_coldkey w of Inl e \<Rightarrow> Inl e | Inr stakes \<Rightarrow>
      case w_balance w of Inl e \<Rightarrow> Inl e | Inr wallet_balance \<Rightarrow>
        Inr (current_block, subnets, stakes, wallet_balance))"

text \<open>
  \<^verbatim>\<open>subnet_info\<close>: subnet id as text to (price, name), without subnet 0. Here
  \<^verbatim>\<open>float(s.price)\<close> is not guarded: when it raises, the handler raises.
\<close>

fun build_subnet_info ::
  "subnet list \<Rightarrow> (string \<rightharpoonup> real \<times> string) \<Rightarrow> error + (string \<rightharpoonup> real \<times> string)" where
  "build_subnet_info [] subnet_info = Inr subnet_info"
| "build_subnet_info (s # ss) subnet_info =
     (if netuid s \<noteq> 0 then
        (case price s of
           None \<Rightarrow> Inl ValueError
         | Some p \<Rightarrow> build_subnet_info ss (subnet_info(str_int (netuid s) \<mapsto> (p, subnet_name s))))
      else build_subnet_info ss subnet_info)"

text \<open>\<^verbatim>\<open>current_stakes\<close>: subnet id as text to amount; a later entry of a subnet overwrites.\<close>

fun build_current_stakes :: "stake_info list \<Rightarrow> (string \<times> real) list \<Rightarrow> (string \<times> real) list" where
  "build_current_stakes [] current_stakes = current_stakes"
| "build_current_stakes (s # ss) current_stakes =
     build_current_stakes ss (dict_set current_stakes (str_int (stake_netuid s)) (stake_amt_of s))"

text \<open>\<^verbatim>\<open>subnet_info.get(netuid, {}).get("price", 0.0)\<close> and the same for the name.\<close>

definition price_of :: "(string \<rightharpoonup> real \<times> string) \<Rightarrow> string \<Rightarrow> real" where
  "price_of subnet_info k = (case subnet_info k of None \<Rightarrow> 0 | Some (p, name) \<Rightarrow> p)"

definition name_of :: "(string \<rightharpoonup> real \<times> string) \<Rightarrow> string \<Rightarrow> string" where
  "name_of subnet_info k = (case subnet_info k of None \<Rightarrow> [] | Some (p, name) \<Rightarrow> name)"

text \<open>The loop that adds \<^verbatim>\<open>amt * price\<close> to \<^verbatim>\<open>current_total_stake_value\<close>.\<close>

definition stake_value :: "(string \<rightharpoonup> real \<times> string) \<Rightarrow> (string \<times> real) list \<Rightarrow> real" where
  "stake_value subnet_info current_stakes =
     foldl (\<lambda>total (k, amt). total + amt * price_of subnet_info k) 0 current_stakes"

text \<open>\<^verbatim>\<open>last_history_snapshot["stakes"].get(netuid, 0.0)\<close>\<close>

definition stakes_get :: "(string \<times> real) list \<Rightarrow> string \<Rightarrow> real" where
  "stakes_get stakes k = (case map_of stakes k of None \<Rightarrow> 0 | Some a \<Rightarrow> a)"

text \<open>The loop that collects the subnets whose stake went up.\<close>

fun increases_lines ::
  "(string \<times> real) list \<Rightarrow> (string \<times> real) list \<Rightarrow> (string \<rightharpoonup> real \<times> string)
     \<Rightarrow> (string \<times> string \<times> real) list" where
  "increases_lines [] previous subnet_info = []"
| "increases_lines ((k, current_amt) # rest) previous subnet_info =
     (let previous_amt = stakes_get previous k;
          diff = current_amt - previous_amt
      in if diff > 0 then (k, name_of subnet_info k, diff) # increases_lines rest previous subnet_info
         else increases_lines rest previous subnet_info)"

definition history_summary ::
  "snapshot \<Rightarrow> purchase_event list \<Rightarrow> (string \<rightharpoonup> real \<times> string) \<Rightarrow> snapshot \<Rightarrow> history_report" where
  "history_summary prev accumulated subnet_info current =
     (let current_total_stake = py_sum (map snd (snap_stakes current));
          amount_staked' = py_sum (map ev_stake_amount accumulated);
          previous_total_stake = py_sum (map snd (snap_stakes prev));
          previous_value = snap_wallet_balance prev + snap_stake_value prev;
          current_value = snap_wallet_balance current + snap_stake_value current
      in \<lparr>time_diff = snap_time current - snap_time prev,
          block_diff = snap_block current - snap_block prev,
          amount_staked = amount_staked',
          stake_diff = current_total_stake - previous_total_stake,
          pnl = current_value - previous_value,
          increases = increases_lines (snap_stakes current) (snap_stakes prev) subnet_info\<rparr>)"

text \<open>Lines 232-255: the snapshot of the current portfolio.\<close>

definition take_snapshot ::
  "real \<Rightarrow> int \<Rightarrow> (string \<rightharpoonup> real \<times> string) \<Rightarrow> stake_info list \<Rightarrow> real \<Rightarrow> snapshot" where
  "take_snapshot current_time current_block subnet_info stakes wallet_balance =
     (let current_stakes = build_current_stakes stakes [];
          current_total_stake_value = stake_value subnet_info current_stakes
      in \<lparr>snap_time = current_time, snap_block = current_block,
          snap_wallet_balance = wallet_balance,
          snap_stake_value = current_total_stake_value,
          snap_stakes = current_stakes\<rparr>)"

definition cmd_history :: "world \<Rightarrow> int \<Rightarrow> bot_state \<Rightarrow> error option \<times> bot_state" where
  "cmd_history w chat_id st =
     (case get_working_subtensor w of
        (Inl e, evs) \<Rightarrow> (None, send w (ErrorInitializing e) (Some chat_id) (emit evs st))
      | (Inr sub, evs) \<Rightarrow>
          (case history_queries w of
             Inl e \<Rightarrow>
               (None, emit [CloseSession sub] (send w (ErrorPortfolioInfo e) (Some chat_id) (emit evs st)))
           | Inr (current_block, subnets, stakes, wallet_balance) \<Rightarrow>
               (case build_subnet_info subnets Map.empty of
                  Inl e \<Rightarrow> (Some e, emit evs st)
                | Inr subnet_info \<Rightarrow>
                    let current_snapshot =
                          take_snapshot (w_time w) current_block subnet_info stakes wallet_balance
                    in (case last_history_snapshot st of
                          None \<Rightarrow>
                            (None, emit [CloseSession sub]
                               (send w HistoryCreated (Some chat_id)
                                  ((emit evs st)\<lparr>last_history_snapshot := Some current_snapshot\<rparr>)))
                        | Some prev \<Rightarrow>
                            let history_msg =
                                  HistorySummary
                                    (history_summary prev (accumulated_history st) subnet_info
                                       current_snapshot);
                                st1 = send w history_msg (Some chat_id) (emit evs st)
                            in (None, emit [CloseSession sub]
                                  (st1\<lparr>last_history_snapshot := Some current_snapshot,
                                       accumulated_history := []\<rparr>))))))"

subsection \<open>The command handler: commands with a subnet id (lines 293-423)\<close>

text \<open>The two search loops of \<^verbatim>\<open>/info\<close>, each leaving at the first match.\<close>

definition find_subnet :: "subnet list \<Rightarrow> int \<Rightarrow> subnet option" where
  "find_subnet subnets n = find (\<lambda>s. netuid s = n) subnets"

definition find_my_stake :: "stake_info list \<Rightarrow> int \<Rightarrow> string \<Rightarrow> real" where
  "find_my_stake stakes n validator' =
     (case find (\<lambda>s. stake_netuid s = n \<and> hotkey_ss58 s = validator') stakes of
        None \<Rightarrow> 0
      | Some s \<Rightarrow> stake_amt_of s)"

definition info_queries :: "world \<Rightarrow> error + (int \<times> subnet list)" where
  "info_queries w =
     (case w_current_block w of Inl e \<Rightarrow> Inl e | Inr current_block \<Rightarrow>
      case w_all_subnets w of Inl e \<Rightarrow> Inl e | Inr subnets \<Rightarrow>
        Inr (current_block, subnets))"

definition cmd_info :: "world \<Rightarrow> int \<Rightarrow> int \<Rightarrow> bot_state \<Rightarrow> error option \<times> bot_state" where
  "cmd_info w n chat_id st =
     (case get_working_subtensor w of
        (Inl e, evs) \<Rightarrow> (None, send w (ErrorInitializing e) (Some chat_id) (emit evs st))
      | (Inr sub, evs) \<Rightarrow>
          (case info_queries w of
             Inl e \<Rightarrow>
               (None, emit [CloseSession sub] (send w (ErrorSubnetData e) (Some chat_id) (emit evs st)))
           | Inr (current_block, subnets) \<Rightarrow>
               (case find_subnet subnets n of
                  None \<Rightarrow>
                    (None, emit [CloseSession sub]
                       (send w (SubnetNotFound n) (Some chat_id) (emit evs st)))
                | Some target \<Rightarrow>
                    let price' = (case price target of None \<Rightarrow> 0 | Some p \<Rightarrow> p)
                    in (case w_stake_for_coldkey w of
                          Inl e \<Rightarrow>
                            (None, emit [CloseSession sub]
                               (send w (ErrorStakeInfo e) (Some chat_id) (emit evs st)))
                        | Inr stakes \<Rightarrow>
                            let my_stake = find_my_stake stakes n (validator (cfg st));
                                current_pref = pref_get (preferences (cfg st)) n;
                                reply =
                                  SubnetInfo n (subnet_name target) price' my_stake (symbol target)
                                    current_pref current_block
                            in (None, emit [CloseSession sub]
                                  (send w reply (Some chat_id) (emit evs st)))))))"

text \<open>\<^verbatim>\<open>config.preferences[str(netuid)] = new_pref\<close>\<close>

definition set_pref :: "int \<Rightarrow> real \<Rightarrow> bot_state \<Rightarrow> bot_state" where
  "set_pref n new_pref st =
     st\<lparr>cfg := (cfg st)\<lparr>preferences := (preferences (cfg st))(str_int n \<mapsto> new_pref)\<rparr>\<rparr>"

text \<open>\<^verbatim>\<open>/boost\<close> (lines 362-366). The float literal 0.1 is the real number 1/10.\<close>

definition cmd_boost :: "world \<Rightarrow> int \<Rightarrow> int \<Rightarrow> bot_state \<Rightarrow> bot_state" where
  "cmd_boost w n chat_id st =
     (let current_pref = pref_get (preferences (cfg st)) n;
          new_pref = current_pref + 1 / 10
      in send w (NewPreference n new_pref) (Some chat_id) (set_pref n new_pref st))"

text \<open>\<^verbatim>\<open>/slash\<close> (lines 368-374).\<close>

definition cmd_slash :: "world \<Rightarrow> int \<Rightarrow> int \<Rightarrow> bot_state \<Rightarrow> bot_state" where
  "cmd_slash w n chat_id st =
     (let current_pref = pref_get (preferences (cfg st)) n;
          new_pref = current_pref - 1 / 10;
          new_pref = (if new_pref < 1 / 10 then 1 / 10 else new_pref)
      in send w (NewPreference n new_pref) (Some chat_id) (set_pref n new_pref st))"

text \<open>\<^verbatim>\<open>/exclude\<close> (lines 376-381).\<close>

definition cmd_exclude :: "world \<Rightarrow> int \<Rightarrow> int \<Rightarrow> bot_state \<Rightarrow> bot_state" where
  "cmd_exclude w n chat_id st =
     (if n \<notin> set (exclude_list (cfg st))
      then send w (Excluded n) (Some chat_id)
             (st\<lparr>cfg := (cfg st)\<lparr>exclude_list := exclude_list (cfg st) @ [n]\<rparr>\<rparr>)
      else send w (AlreadyExcluded n) (Some chat_id) st)"

text \<open>\<^verbatim>\<open>/unstake\<close> (lines 383-402) with \<^verbatim>\<open>unstake_on_subnet\<close>.\<close>

definition cmd_unstake ::
  "world \<Rightarrow> string list \<Rightarrow> int \<Rightarrow> int \<Rightarrow> bot_state \<Rightarrow> error option \<times> bot_state" where
  "cmd_unstake w parts n chat_id st =
     (if length parts < 3 then (None, send w UsageUnstake (Some chat_id) st)
      else case py_float w (parts ! 2) of
        None \<Rightarrow> (None, send w UsageUnstakeNumber (Some chat_id) st)
      | Some amount \<Rightarrow>
          (case get_working_subtensor w of
             (Inl e, evs) \<Rightarrow> (None, send w (ErrorInitializing e) (Some chat_id) (emit evs st))
           | (Inr sub, evs) \<Rightarrow>
               let st1 = emit (evs @ [Unstake sub (validator (cfg st)) n amount]) st;
                   st2 = (case w_unstake w of
                            None \<Rightarrow> send w (Unstaked amount n) (Some chat_id) st1
                          | Some e \<Rightarrow> send w (ErrorUnstaking n e) (Some chat_id) st1)
               in (None, emit [CloseSession sub] st2)))"

text \<open>\<^verbatim>\<open>/stake\<close> (lines 404-423) with \<^verbatim>\<open>stake_on_subnet\<close>.\<close>

definition cmd_stake ::
  "world \<Rightarrow> string list \<Rightarrow> int \<Rightarrow> int \<Rightarrow> bot_state \<Rightarrow> error option \<times> bot_state" where
  "cmd_stake w parts n chat_id st =
     (if length parts < 3 then (None, send w UsageStake (Some chat_id) st)
      else case py_float w (parts ! 2) of
        None \<Rightarrow> (None, send w UsageStakeNumber (Some chat_id) st)
      | Some amount \<Rightarrow>
          (case get_working_subtensor w of
             (Inl e, evs) \<Rightarrow> (None, send w (ErrorInitializing e) (Some chat_id) (emit evs st))
           | (Inr sub, evs) \<Rightarrow>
               let st1 = emit (evs @ [AddStake sub (validator (cfg st)) n amount]) st;
                   st2 = (case w_add_stake w of
                            None \<Rightarrow> send w (Staked amount n) (Some chat_id) st1
                          | Some e \<Rightarrow> send w (ErrorStaking n e) (Some chat_id) st1)
               in (None, emit [CloseSession sub] st2)))"

text \<open>
  \<^verbatim>\<open>/amount\<close> (lines 425-432). \<^verbatim>\<open>parts[1]\<close> is read inside a \<^verbatim>\<open>try\<close> that catches
  \<^verbatim>\<open>ValueError\<close> only: with a single token the read raises \<^verbatim>\<open>IndexError\<close>, which
  leaves the handler.
\<close>

definition cmd_amount :: "world \<Rightarrow> string list \<Rightarrow> int \<Rightarrow> bot_state \<Rightarrow> error option \<times> bot_state" where
  "cmd_amount w parts chat_id st =
     (if length parts < 2 then (Some IndexError, st)
      else case py_float w (parts ! 1) of
        None \<Rightarrow> (None, send w UsageAmount (Some chat_id) st)
      | Some new_amount \<Rightarrow>
          (None, send w (NewStakeAmount new_amount) (Some chat_id)
                   (st\<lparr>cfg := (cfg st)\<lparr>stake_amount := new_amount\<rparr>\<rparr>)))"

subsection \<open>handle_telegram_command (lines 139-432)\<close>

text \<open>
  An inbound message: \<open>m_text\<close> is \<^verbatim>\<open>message.get("text")\<close> and \<open>m_chat_id\<close> is
  \<^verbatim>\<open>message["chat"]["id"]\<close>, \<open>None\<close> when the key is missing.
\<close>

record message =
  m_text :: "string option"
  m_chat_id :: "int option"

definition netuid_commands :: "string list" where
  "netuid_commands = [''/info'', ''/boost'', ''/slash'', ''/exclude'', ''/unstake'', ''/stake'']"

text \<open>
  The \<^verbatim>\<open>if\<close>/\<^verbatim>\<open>elif\<close> chain of lines 304-432 for a command of \<open>netuid_commands\<close>,
  after its subnet id has been parsed. The chain has no final \<^verbatim>\<open>else\<close>.
\<close>

definition run_netuid_command ::
  "world \<Rightarrow> string \<Rightarrow> string list \<Rightarrow> int \<Rightarrow> int \<Rightarrow> bot_state \<Rightarrow> error option \<times> bot_state" where
  "run_netuid_command w cmd parts n chat_id st =
     (if cmd = ''/info'' then cmd_info w n chat_id st
      else if cmd = ''/boost'' then (None, cmd_boost w n chat_id st)
      else if cmd = ''/slash'' then (None, cmd_slash w n chat_id st)
      else if cmd = ''/exclude'' then (None, cmd_exclude w n chat_id st)
      else if cmd = ''/unstake'' then cmd_unstake w parts n chat_id st
      else if cmd = ''/stake'' then cmd_stake w parts n chat_id st
      else (None, st))"

text \<open>
  The handler. A command outside \<open>netuid_commands\<close> skips the parsing block and reaches
  the same chain, where only the \<^verbatim>\<open>/amount\<close> branch can match it; any other first
  token falls off the end of the chain and the function returns without sending.
\<close>

definition handle_telegram_command :: "world \<Rightarrow> message \<Rightarrow> bot_state \<Rightarrow> error option \<times> bot_state" where
  "handle_telegram_command w msg st =
     (let text = (case m_text msg of None \<Rightarrow> [] | Some t \<Rightarrow> t)
      in case m_chat_id msg of
        None \<Rightarrow> (Some KeyError, st)
      | Some chat_id \<Rightarrow>
          let parts = py_split text
          in if length parts < 1 then (None, send w InvalidCommand (Some chat_id) st)
             else
               let cmd = py_lower (parts ! 0)
               in if cmd = ''/pause'' then
                    (None, send w BotPaused (Some chat_id) (st\<lparr>cfg := (cfg st)\<lparr>paused := True\<rparr>\<rparr>))
                  else if cmd = ''/start'' then
                    (None, send w BotResumed (Some chat_id) (st\<lparr>cfg := (cfg st)\<lparr>paused := False\<rparr>\<rparr>))
                  else if cmd = ''/balance'' then cmd_balance w chat_id st
                  else if cmd = ''/history'' then cmd_history w chat_id st
                  else if cmd \<in> set netuid_commands then
                    (if length parts < 2 then (None, send w UsageNetuid (Some chat_id) st)
                     else case py_int w (parts ! 1) of
                       None \<Rightarrow> (None, send w UsageNumericNetuid (Some chat_id) st)
                     | Some n \<Rightarrow> run_netuid_command w cmd parts n chat_id st)
                  else if cmd = ''/amount'' then cmd_amount w parts chat_id st
                  else (None, st))"

subsection \<open>poll_telegram_updates (lines 108-137)\<close>


datatype task_result = Returned | Raised error | StillRunning




subsection \<open>process_block (lines 560-623)\<close>

text \<open>\<^verbatim>\<open>get_stake_info\<close>: the stakes of the validator's hotkey, by subnet id.\<close>

definition get_stake_info :: "stake_info list \<Rightarrow> string \<Rightarrow> (int \<rightharpoonup> stake_info)" where
  "get_stake_info stakes validator' =
     foldl (\<lambda>m s. if hotkey_ss58 s = validator' then m(stake_netuid s \<mapsto> s) else m) Map.empty stakes"

text \<open>
  The totals of \<^verbatim>\<open>build_display_table\<close>: \<open>(total_stake, total_stake_value, total_price)\<close>.
  The rows of the table are rendering and are not modelled.
\<close>

fun display_totals ::
  "subnet list \<Rightarrow> (int \<rightharpoonup> stake_info) \<Rightarrow> real \<times> real \<times> real \<Rightarrow> real \<times> real \<times> real" where
  "display_totals [] stakes totals = totals"
| "display_totals (s # ss) stakes (total_stake, total_stake_value, total_price) =
     (if netuid s = 0 then display_totals ss stakes (total_stake, total_stake_value, total_price)
      else let price' = (case price s of None \<Rightarrow> 0 | Some p \<Rightarrow> p)
           in if price' \<le> 0
              then display_totals ss stakes (total_stake, total_stake_value, total_price)
              else let stake_amt = (case stakes (netuid s) of None \<Rightarrow> 0 | Some i \<Rightarrow> stake_amt_of i)
                   in display_totals ss stakes
                        (total_stake + stake_amt, total_stake_value + stake_amt * price',
                         total_price + price'))"

definition build_display_table :: "subnet list \<Rightarrow> (int \<rightharpoonup> stake_info) \<Rightarrow> real \<Rightarrow> summary" where
  "build_display_table subnets stakes wallet_balance =
     (case display_totals subnets stakes (0, 0, 0) of
        (total_stake, total_stake_value, total_price) \<Rightarrow>
          \<lparr>sum_wallet_balance = wallet_balance, sum_total_price = total_price,
           sum_total_stake = total_stake, sum_total_stake_value = total_stake_value\<rparr>)"

text \<open>
  Lines 573-599: the selection and the stake. The result carries the local variables
  \<open>(chosen_subnet, best_score)\<close>, \<open>chosen_netuid\<close> and \<open>stake_action\<close> next to the state.
  \<^verbatim>\<open>stake_on_subnet\<close> is the \<open>AddStake\<close> effect; when it raises, no event is appended.
\<close>

definition stake_phase ::
  "world \<Rightarrow> handle \<Rightarrow> int \<Rightarrow> subnet list \<Rightarrow> bot_state
     \<Rightarrow> (subnet option \<times> real) \<times> int option \<times> stake_action \<times> bot_state" where
  "stake_phase w sub current_block subnets st =
     (let c = cfg st in
      case select_best_subnet subnets (exclude_list c) (preferences c) of
        (chosen_subnet, best_score) \<Rightarrow>
          if \<not> paused c \<and> chosen_subnet \<noteq> None \<and> best_score > 0 then
            let chosen_netuid = netuid (the chosen_subnet);
                pref_multiplier = pref_get (preferences c) chosen_netuid;
                actual_stake = stake_amount c * pref_multiplier;
                st1 = emit [AddStake sub (validator c) chosen_netuid actual_stake] st
            in (case w_add_stake w of
                  None \<Rightarrow>
                    let purchase_event =
                          \<lparr>ev_block = current_block, ev_netuid = chosen_netuid,
                           ev_subnet_name = subnet_name (the chosen_subnet),
                           ev_stake_amount = actual_stake, ev_score = best_score,
                           ev_pref_multiplier = pref_multiplier\<rparr>
                    in ((chosen_subnet, best_score), Some chosen_netuid,
                        StakeOf actual_stake best_score pref_multiplier,
                        st1\<lparr>purchase_history := purchase_history st1 @ [purchase_event],
                             accumulated_history := accumulated_history st1 @ [purchase_event]\<rparr>)
                | Some e \<Rightarrow>
                    ((chosen_subnet, best_score), Some chosen_netuid, StakeError e, st1))
          else if paused c then ((chosen_subnet, best_score), None, Paused, st)
          else ((chosen_subnet, best_score), None, NoAction, st))"

text \<open>
  Lines 614-619: the Telegram update. \<^verbatim>\<open>current_block % telegram_interval\<close> is
  evaluated first and raises for an interval of 0.
\<close>

definition notify_phase :: "world \<Rightarrow> int \<Rightarrow> summary \<Rightarrow> bot_state \<Rightarrow> error option \<times> bot_state" where
  "notify_phase w current_block summary' st =
     (let telegram_interval = telegram_update_interval (cfg st)
      in if telegram_interval = 0 then (Some ZeroDivisionError, st)
         else if current_block mod telegram_interval = 0 \<and> purchase_history st \<noteq> [] then
           (let telegram_message = StakingUpdate current_block summary' (purchase_history st)
            in (None, (emit (send_telegram_message w telegram_message (cfg st) None) st)
                        \<lparr>purchase_history := []\<rparr>))
         else (None, st))"

definition process_block :: "world \<Rightarrow> handle \<Rightarrow> bot_state \<Rightarrow> error option \<times> bot_state" where
  "process_block w sub st =
     (case w_current_block w of Inl e \<Rightarrow> (Some e, st) | Inr current_block \<Rightarrow>
      case w_all_subnets w of Inl e \<Rightarrow> (Some e, st) | Inr subnets \<Rightarrow>
      case w_stake_for_coldkey w of Inl e \<Rightarrow> (Some e, st) | Inr stakes_before \<Rightarrow>
      case stake_phase w sub current_block subnets st of
        (selection, chosen_netuid, stake_action', st1) \<Rightarrow>
      case w_stake_refresh w of Inl e \<Rightarrow> (Some e, st1) | Inr stakes \<Rightarrow>
      case w_balance w of Inl e \<Rightarrow> (Some e, st1) | Inr wallet_balance \<Rightarrow>
        let summary' =
              build_display_table subnets (get_stake_info stakes (validator (cfg st))) wallet_balance;
            st2 = emit [Display summary' chosen_netuid stake_action'] st1
        in (case notify_phase w current_block summary' st2 of
              (Some e, st3) \<Rightarrow> (Some e, st3)
            | (None, st3) \<Rightarrow>
                (case w_wait_for_block w of
                   Some e \<Rightarrow> (Some e, emit [WaitForBlock sub] st3)
                 | None \<Rightarrow> (None, emit [WaitForBlock sub] st3))))"

subsection \<open>main_loop (lines 625-634)\<close>

fun block_loop :: "handle \<Rightarrow> world list \<Rightarrow> bot_state \<Rightarrow> task_result \<times> bot_state" where
  "block_loop sub [] st = (StillRunning, st)"
| "block_loop sub (w # ws) st =
     (case process_block w sub st of
        (Some e, st') \<Rightarrow> (Returned, emit [ConsolePanel (ProcessBlockError e), CloseSession sub] st')
      | (None, st') \<Rightarrow> block_loop sub ws st')"

definition main_loop :: "world \<Rightarrow> world list \<Rightarrow> bot_state \<Rightarrow> task_result \<times> bot_state" where
  "main_loop w0 script st =
     (case get_working_subtensor w0 of
        (Inl e, evs) \<Rightarrow> (Raised e, emit evs st)
      | (Inr sub, evs) \<Rightarrow> block_loop sub script ((emit evs st)\<lparr>purchase_history := []\<rparr>))"

subsection \<open>Sample data\<close>

definition subnet_root :: subnet where
  "subnet_root = \<lparr>netuid = 0, subnet_name = ''root'', price = Some 1, tao_in_emission = 50, symbol = ''T''\<rparr>"

definition subnet_a :: subnet where
  "subnet_a = \<lparr>netuid = 1, subnet_name = ''alpha'', price = Some 2, tao_in_emission = 4, symbol = ''a''\<rparr>"

definition subnet_b :: subnet where
  "subnet_b = \<lparr>netuid = 2, subnet_name = ''beta'', price = Some 1, tao_in_emission = 2, symbol = ''b''\<rparr>"

definition subnet_c :: subnet where
  "subnet_c = \<lparr>netuid = 3, subnet_name = ''gamma'', price = Some 1, tao_in_emission = 9, symbol = ''c''\<rparr>"

definition subnet_d :: subnet where
  "subnet_d = \<lparr>netuid = 4, subnet_name = ''delta'', price = Some 0, tao_in_emission = 7, symbol = ''d''\<rparr>"

definition sample_subnets :: "subnet list" where
  "sample_subnets = [subnet_root, subnet_a, subnet_b, subnet_c, subnet_d]"

definition sample_stake :: stake_info where
  "sample_stake = \<lparr>stake_netuid = 1, hotkey_ss58 = ''validator-hotkey'', stake = Some 10\<rparr>"

text \<open>
  A world in which every endpoint works at once, every query answers, no call raises,
  and no token converts to a number.
\<close>

definition sample_world :: world where
  "sample_world =
     \<lparr>w_connect = (\<lambda>ep n. Works), w_current_block = Inr 100,
      w_all_subnets = Inr sample_subnets, w_stake_for_coldkey = Inr [sample_stake],
      w_stake_refresh = Inr [sample_stake], w_balance = Inr 25,
      w_add_stake = None, w_unstake = None, w_wait_for_block = None,
      w_post = (\<lambda>m. None), w_time = 5000,
      py_int = (\<lambda>s. None), py_float = (\<lambda>s. None)\<rparr>"

definition sample_config :: config where
  "sample_config =
     \<lparr>telegram_token = Some ''token'', telegram_chat_id = Some 77,
      validator = ''validator-hotkey'', stake_amount = 3,
      preferences = Map.empty, exclude_list = [3], paused = False,
      telegram_update_interval = 10\<rparr>"

definition sample_state :: bot_state where
  "sample_state =
     \<lparr>cfg = sample_config, last_history_snapshot = None, accumulated_history = [],
      purchase_history = [], effects = []\<rparr>"

definition text_message :: "string \<Rightarrow> message" where
  "text_message t = \<lparr>m_text = Some t, m_chat_id = Some 42\<rparr>"

subsection \<open>Vocabulary of the specification for the connection layer\<close>






subsection \<open>Vocabulary for the block cycle\<close>


subsection \<open>Vocabulary for the history command\<close>

text \<open>
  The profit/loss as section 4.4 of the specification words it: both portfolios are
  valued with the current unit prices, \<open>subnet_info\<close> being the price table of the
  current invocation.
\<close>

definition spec_pnl :: "(string \<rightharpoonup> real \<times> string) \<Rightarrow> snapshot \<Rightarrow> snapshot \<Rightarrow> real" where
  "spec_pnl subnet_info current prev =
     (snap_wallet_balance current
        + sum_list (map (\<lambda>(k, amt). amt * price_of subnet_info k) (snap_stakes current)))
     - (snap_wallet_balance prev
        + sum_list (map (\<lambda>(k, amt). amt * price_of subnet_info k) (snap_stakes prev)))"

text \<open>The profit/loss figures of the history summaries posted in a trace.\<close>

fun reported_pnl :: "effect list \<Rightarrow> real list" where
  "reported_pnl [] = []"
| "reported_pnl (HttpPost chat_id (HistorySummary rep) # evs) = pnl rep # reported_pnl evs"
| "reported_pnl (ev # evs) = reported_pnl evs"



definition sample_event :: purchase_event where
  "sample_event =
     \<lparr>ev_block = 99, ev_netuid = 1, ev_subnet_name = ''alpha'', ev_stake_amount = 3,
      ev_score = 2, ev_pref_multiplier = 1\<rparr>"


text \<open>A state with one buffered event, and a world in which every HTTP post fails.\<close>

definition buffered_state :: bot_state where
  "buffered_state =
     sample_state\<lparr>purchase_history := [sample_event], accumulated_history := [sample_event]\<rparr>"


definition history_message :: message where
  "history_message = \<lparr>m_text = Some ''/history'', m_chat_id = Some 42\<rparr>"

definition repriced_subnets :: "subnet list" where
  "repriced_subnets = [subnet_root, subnet_a\<lparr>price := Some 3\<rparr>, subnet_b, subnet_c, subnet_d]"

text \<open>The sample world one moment later: subnet 1 now costs 3 instead of 2.\<close>

definition repriced_world :: world where
  "repriced_world =
     sample_world\<lparr>w_all_subnets := Inr repriced_subnets,
                  w_current_block := Inr 107, w_time := 5084\<rparr>"

definition repriced_prices :: "string \<rightharpoonup> real \<times> string" where
  "repriced_prices =
     [''1'' \<mapsto> (3, ''alpha''), ''2'' \<mapsto> (1, ''beta''), ''3'' \<mapsto> (1, ''gamma''),
      ''4'' \<mapsto> (0, ''delta'')]"

definition sample_prices :: "string \<rightharpoonup> real \<times> string" where
  "sample_prices =
     [''1'' \<mapsto> (2, ''alpha''), ''2'' \<mapsto> (1, ''beta''), ''3'' \<mapsto> (1, ''gamma''),
      ''4'' \<mapsto> (0, ''delta'')]"

text \<open>
  The state after a first \<^verbatim>\<open>/history\<close> in the sample world, with one event in the
  accumulated buffer: it holds the snapshot that the program took there.
\<close>

definition snapshot_state :: bot_state where
  "snapshot_state = snd (handle_telegram_command sample_world history_message buffered_state)"


section \<open>Auxiliary facts\<close>

subsection \<open>Evaluation of the built-ins\<close>

lemmas sample_subnet_defs =
  sample_subnets_def subnet_root_def subnet_a_def subnet_b_def subnet_c_def subnet_d_def

lemma str_int_small [simp]:
  "str_int 0 = ''0''" "str_int 1 = ''1''" "str_int 2 = ''2''" "str_int 3 = ''3''"
  "str_int 4 = ''4''" "str_int 5 = ''5''"
  by (simp_all add: str_int_def str_nat.simps digit_char_def)

subsection \<open>The selection loop\<close>




subsection \<open>The connection layer\<close>












subsection \<open>The preference commands\<close>

lemma cfg_send [simp]: "cfg (send w m c st) = cfg st"
  by (simp add: send_def emit_def)

lemma pref_get_set_pref [simp]: "pref_get (preferences (cfg (set_pref n v st))) n = v"
  by (simp add: set_pref_def pref_get_def)

lemma stored_set_pref [simp]: "preferences (cfg (set_pref n v st)) (str_int n) = Some v"
  by (simp add: set_pref_def)


lemma cmd_slash_pref:
  "preferences (cfg (cmd_slash w n c st)) (str_int n)
     = Some (max (pref_get (preferences (cfg st)) n - 1 / 10) (1 / 10))"
  by (simp add: cmd_slash_def Let_def max_def)

lemma pref_get_stored: "prefs (str_int n) = Some v \<Longrightarrow> pref_get prefs n = v"
  by (simp add: pref_get_def)


lemma cmd_slash_get:
  "pref_get (preferences (cfg (cmd_slash w n c st))) n
     = max (pref_get (preferences (cfg st)) n - 1 / 10) (1 / 10)"
  using cmd_slash_pref [of w n c st] by (rule pref_get_stored)



text \<open>
  The handler runs \<open>cmd_boost\<close> and \<open>cmd_slash\<close> on the texts \<^verbatim>\<open>/boost <token>\<close> and
  \<^verbatim>\<open>/slash <token>\<close> whose token converts to the subnet id.
\<close>

lemma split_from_token:
  "tok \<noteq> [] \<Longrightarrow> \<forall>c \<in> set tok. \<not> is_space c \<Longrightarrow> split_from tok cur = [cur @ tok]"
proof (induction tok arbitrary: cur)
  case Nil
  then show ?case by simp
next
  case (Cons c tok)
  show ?case
  proof (cases "tok = []")
    case True
    with Cons.prems show ?thesis by simp
  next
    case False
    with Cons.prems Cons.IH [of "cur @ [c]"] show ?thesis by simp
  qed
qed

lemma handle_boost:
  assumes "tok \<noteq> []" and "\<forall>c \<in> set tok. \<not> is_space c" and "py_int w tok = Some n"
  shows "handle_telegram_command w \<lparr>m_text = Some (''/boost '' @ tok), m_chat_id = Some chat\<rparr> st
           = (None, cmd_boost w n chat st)"
proof -
  have "py_split (''/boost '' @ tok) = [''/boost'', tok]"
    using split_from_token [OF assms(1,2), of "[]"] by (simp add: py_split_def is_space_def)
  then show ?thesis
    using assms(3)
    by (simp add: handle_telegram_command_def py_lower_def lower_char_def netuid_commands_def
        run_netuid_command_def)
qed

lemma handle_slash:
  assumes "tok \<noteq> []" and "\<forall>c \<in> set tok. \<not> is_space c" and "py_int w tok = Some n"
  shows "handle_telegram_command w \<lparr>m_text = Some (''/slash '' @ tok), m_chat_id = Some chat\<rparr> st
           = (None, cmd_slash w n chat st)"
proof -
  have "py_split (''/slash '' @ tok) = [''/slash'', tok]"
    using split_from_token [OF assms(1,2), of "[]"] by (simp add: py_split_def is_space_def)
  then show ?thesis
    using assms(3)
    by (simp add: handle_telegram_command_def py_lower_def lower_char_def netuid_commands_def
        run_netuid_command_def)
qed

subsection \<open>The block cycle\<close>








subsection \<open>The commands without arguments\<close>

lemma handle_history:
  "handle_telegram_command w \<lparr>m_text = Some ''/history'', m_chat_id = Some chat\<rparr> st
     = cmd_history w chat st"
  by (simp add: handle_telegram_command_def py_split_def is_space_def py_lower_def lower_char_def)

lemma handle_balance:
  "handle_telegram_command w \<lparr>m_text = Some ''/balance'', m_chat_id = Some chat\<rparr> st
     = cmd_balance w chat st"
  by (simp add: handle_telegram_command_def py_split_def is_space_def py_lower_def lower_char_def)

lemma retry_from_works:
  "w_connect w ep n = Works \<Longrightarrow>
     retry_from w ep n = (Inr (Handle ep), [OpenSession ep n, TestSession ep])"
  by (simp add: retry_from.simps [of w ep n] attempt_once_def)

lemma first_endpoint_works:
  "w_connect w ''finney'' 1 = Works \<Longrightarrow>
     get_working_subtensor w = (Inr (Handle ''finney''), [OpenSession ''finney'' 1, TestSession ''finney''])"
  by (simp add: get_working_subtensor_def ENDPOINTS_def get_and_test_subtensor_def
      retry_from_works)

lemma py_sum_sum_list: "py_sum xs = sum_list xs"
proof -
  have "foldl (+) a xs = a + sum_list xs" for a :: real
    by (induction xs arbitrary: a) (simp_all add: algebra_simps)
  from this [of 0] show ?thesis by (simp add: py_sum_def)
qed

lemma stake_value_sum_list:
  "stake_value info cs = sum_list (map (\<lambda>(k, amt). amt * price_of info k) cs)"
proof -
  have "foldl (\<lambda>total (k, amt). total + amt * price_of info k) a cs
      = a + sum_list (map (\<lambda>(k, amt). amt * price_of info k) cs)" for a
    by (induction cs arbitrary: a) (auto simp: algebra_simps)
  from this [of 0] show ?thesis by (simp add: stake_value_def)
qed

lemma cmd_history_first:
  assumes "get_working_subtensor w = (Inr sub, evs)"
    and "history_queries w = Inr (blk, subnets, stakes, wallet)"
    and "build_subnet_info subnets Map.empty = Inr info"
    and "last_history_snapshot st = None"
  shows "cmd_history w chat st =
     (None, emit [CloseSession sub]
        (send w HistoryCreated (Some chat)
           ((emit evs st)\<lparr>last_history_snapshot :=
              Some (take_snapshot (w_time w) blk info stakes wallet)\<rparr>)))"
  using assms by (simp add: cmd_history_def emit_def Let_def)

lemma cmd_history_next:
  assumes "get_working_subtensor w = (Inr sub, evs)"
    and "history_queries w = Inr (blk, subnets, stakes, wallet)"
    and "build_subnet_info subnets Map.empty = Inr info"
    and "last_history_snapshot st = Some prev"
  shows "cmd_history w chat st =
     (None, emit [CloseSession sub]
        ((send w (HistorySummary (history_summary prev (accumulated_history st) info
                     (take_snapshot (w_time w) blk info stakes wallet)))
            (Some chat) (emit evs st))
         \<lparr>last_history_snapshot := Some (take_snapshot (w_time w) blk info stakes wallet),
          accumulated_history := []\<rparr>))"
  using assms by (simp add: cmd_history_def emit_def Let_def)

text \<open>What a successful \<^verbatim>\<open>/history\<close> leaves behind, whichever branch it takes.\<close>

lemma cmd_history_frame:
  assumes "get_working_subtensor w = (Inr sub, evs)"
    and "history_queries w = Inr (blk, subnets, stakes, wallet)"
    and "build_subnet_info subnets Map.empty = Inr info"
  shows "fst (cmd_history w chat st) = None"
    and "last_history_snapshot (snd (cmd_history w chat st))
           = Some (take_snapshot (w_time w) blk info stakes wallet)"
    and "purchase_history (snd (cmd_history w chat st)) = purchase_history st"
    and "cfg (snd (cmd_history w chat st)) = cfg st"
proof -
  show "fst (cmd_history w chat st) = None"
    by (cases "last_history_snapshot st")
       (simp_all add: cmd_history_first [OF assms] cmd_history_next [OF assms])
  show "last_history_snapshot (snd (cmd_history w chat st))
           = Some (take_snapshot (w_time w) blk info stakes wallet)"
    by (cases "last_history_snapshot st")
       (simp_all add: cmd_history_first [OF assms] cmd_history_next [OF assms] emit_def send_def)
  show "purchase_history (snd (cmd_history w chat st)) = purchase_history st"
    by (cases "last_history_snapshot st")
       (simp_all add: cmd_history_first [OF assms] cmd_history_next [OF assms] emit_def send_def)
  show "cfg (snd (cmd_history w chat st)) = cfg st"
    by (cases "last_history_snapshot st")
       (simp_all add: cmd_history_first [OF assms] cmd_history_next [OF assms] emit_def send_def)
qed

lemma cmd_history_summary:
  assumes "get_working_subtensor w = (Inr sub, evs)"
    and "history_queries w = Inr (blk, subnets, stakes, wallet)"
    and "build_subnet_info subnets Map.empty = Inr info"
    and "last_history_snapshot st = Some prev"
  shows "\<exists>rep.
      effects (snd (cmd_history w chat st))
        = effects st @ evs @ send_telegram_message w (HistorySummary rep) (cfg st) (Some chat)
            @ [CloseSession sub]
      \<and> time_diff rep = w_time w - snap_time prev
      \<and> block_diff rep = blk - snap_block prev
      \<and> amount_staked rep = sum_list (map ev_stake_amount (accumulated_history st))
      \<and> pnl rep = (wallet + sum_list (map (\<lambda>(k, amt). amt * price_of info k)
                                    (build_current_stakes stakes [])))
                  - (snap_wallet_balance prev + snap_stake_value prev)"
proof -
  let ?rep = "history_summary prev (accumulated_history st) info
                (take_snapshot (w_time w) blk info stakes wallet)"
  have "effects (snd (cmd_history w chat st))
        = effects st @ evs @ send_telegram_message w (HistorySummary ?rep) (cfg st) (Some chat)
            @ [CloseSession sub]"
    by (simp add: cmd_history_next [OF assms] emit_def send_def)
  moreover have "time_diff ?rep = w_time w - snap_time prev"
    and "block_diff ?rep = blk - snap_block prev"
    and "amount_staked ?rep = sum_list (map ev_stake_amount (accumulated_history st))"
    by (simp_all add: history_summary_def take_snapshot_def Let_def py_sum_sum_list)
  moreover have "pnl ?rep = (wallet + sum_list (map (\<lambda>(k, amt). amt * price_of info k)
                                    (build_current_stakes stakes [])))
                  - (snap_wallet_balance prev + snap_stake_value prev)"
    by (simp add: history_summary_def take_snapshot_def Let_def stake_value_sum_list)
  ultimately show ?thesis by blast
qed

subsection \<open>Evaluation on the sample data\<close>

lemma sample_connect:
  "get_working_subtensor sample_world
     = (Inr (Handle ''finney''), [OpenSession ''finney'' 1, TestSession ''finney''])"
  "get_working_subtensor repriced_world
     = (Inr (Handle ''finney''), [OpenSession ''finney'' 1, TestSession ''finney''])"
  by (rule first_endpoint_works, simp add: sample_world_def repriced_world_def)+

lemma sample_history_queries:
  "history_queries sample_world = Inr (100, sample_subnets, [sample_stake], 25)"
  "history_queries repriced_world = Inr (107, repriced_subnets, [sample_stake], 25)"
  by (simp_all add: history_queries_def sample_world_def repriced_world_def)

lemma sample_subnet_info:
  "build_subnet_info sample_subnets Map.empty = Inr sample_prices"
  "build_subnet_info repriced_subnets Map.empty = Inr repriced_prices"
  by (simp_all add: sample_subnet_defs repriced_subnets_def sample_prices_def repriced_prices_def)

lemma sample_snapshots:
  "take_snapshot 5000 100 sample_prices [sample_stake] 25
     = \<lparr>snap_time = 5000, snap_block = 100, snap_wallet_balance = 25, snap_stake_value = 20,
        snap_stakes = [(''1'', 10)]\<rparr>"
  "take_snapshot 5084 107 repriced_prices [sample_stake] 25
     = \<lparr>snap_time = 5084, snap_block = 107, snap_wallet_balance = 25, snap_stake_value = 30,
        snap_stakes = [(''1'', 10)]\<rparr>"
  by (simp_all add: take_snapshot_def sample_stake_def stake_amt_of_def stake_value_def
      price_of_def sample_prices_def repriced_prices_def)

lemma sample_send:
  "send_telegram_message sample_world m sample_config (Some 42) = [HttpPost 42 m]"
  "send_telegram_message repriced_world m sample_config (Some 42) = [HttpPost 42 m]"
  by (simp_all add: send_telegram_message_def sample_config_def truthy_int_def truthy_str_def
      sample_world_def repriced_world_def)

lemma snapshot_state_eq:
  "snapshot_state =
     buffered_state
       \<lparr>last_history_snapshot :=
          Some \<lparr>snap_time = 5000, snap_block = 100, snap_wallet_balance = 25,
                snap_stake_value = 20, snap_stakes = [(''1'', 10)]\<rparr>,
        effects := [OpenSession ''finney'' 1, TestSession ''finney'', HttpPost 42 HistoryCreated,
                    CloseSession (Handle ''finney'')]\<rparr>"
proof -
  have none: "last_history_snapshot buffered_state = None"
    by (simp add: buffered_state_def sample_state_def)
  have t: "w_time sample_world = 5000" by (simp add: sample_world_def)
  show ?thesis
    unfolding snapshot_state_def history_message_def handle_history
      cmd_history_first [OF sample_connect(1) sample_history_queries(1) sample_subnet_info(1) none]
      t sample_snapshots
    by (simp add: emit_def send_def sample_send buffered_state_def sample_state_def)
qed

subsection \<open>The poll loop\<close>







lemma amount_raises:
  "handle_telegram_command w \<lparr>m_text = Some ''/amount'', m_chat_id = Some chat\<rparr> st
     = (Some IndexError, st)"
  by (simp add: handle_telegram_command_def py_split_def is_space_def
      py_lower_def lower_char_def netuid_commands_def cmd_amount_def)

section \<open>Claims\<close>

subsection \<open>C1: the selection\<close>



subsection \<open>C2: pause and commit\<close>



subsection \<open>C3: /boost and /slash\<close>



subsection \<open>C4: unknown commands and missing arguments\<close>

text \<open>
  C4 fails on the program in two places. \<^verbatim>\<open>/amount\<close> without a value: the handler
  reads \<^verbatim>\<open>parts[1]\<close> of a one-element list, the \<^verbatim>\<open>IndexError\<close> is not caught (the
  \<^verbatim>\<open>except\<close> names \<^verbatim>\<open>ValueError\<close>), and the handler raises without sending a usage
  text. A first token that is no command, such as \<^verbatim>\<open>/sell\<close>: no branch of the chain
  matches, and the handler returns without sending anything. In both cases the state,
  effects included, is as before.
\<close>

theorem amount_without_value_raises:
  "handle_telegram_command w (text_message ''/amount'') st = (Some IndexError, st)
   \<and> handle_telegram_command w (text_message ''/sell 5 1'') st = (None, st)"
proof -
  have "handle_telegram_command w (text_message ''/amount'') st = (Some IndexError, st)"
    unfolding text_message_def by (rule amount_raises)
  moreover have "handle_telegram_command w (text_message ''/sell 5 1'') st = (None, st)"
    by (simp add: handle_telegram_command_def text_message_def py_split_def is_space_def
        py_lower_def lower_char_def netuid_commands_def)
  ultimately show ?thesis by (rule conjI)
qed

subsection \<open>C5: errors in the poll cycle\<close>




subsection \<open>C6: the notification cadence\<close>



subsection \<open>C7: the history command\<close>

text \<open>
  C7. Take a \<^verbatim>\<open>/history\<close> message handled in a world where a gateway handle is
  acquired and the four queries answer (otherwise the reply is an error text and nothing
  is stored). The handler does not raise, stores the current portfolio as the snapshot,
  and leaves the batch buffer and the configuration untouched. With no prior snapshot it
  sends "History snapshot created. No previous history available.", a text without any
  figure, and leaves the accumulated buffer unchanged. With a prior snapshot it sends a
  summary with the elapsed time, the elapsed blocks, the sum of the stake amounts in the
  accumulated buffer and the profit/loss against the stored snapshot, and empties the
  accumulated buffer; a further invocation right after it (in any such world) reports
  an amount staked of 0.
\<close>

theorem history_bootstrap_and_reset:
  assumes "get_working_subtensor w = (Inr sub, evs)"
    and "history_queries w = Inr (blk, subnets, stakes, wallet)"
    and "build_subnet_info subnets Map.empty = Inr info"
    and "get_working_subtensor w2 = (Inr sub2, evs2)"
    and "history_queries w2 = Inr (blk2, subnets2, stakes2, wallet2)"
    and "build_subnet_info subnets2 Map.empty = Inr info2"
  shows
    "let msg = \<lparr>m_text = Some ''/history'', m_chat_id = Some chat\<rparr>;
         cur = take_snapshot (w_time w) blk info stakes wallet;
         st' = snd (handle_telegram_command w msg st);
         st'' = snd (handle_telegram_command w2 msg st')
     in fst (handle_telegram_command w msg st) = None
        \<and> last_history_snapshot st' = Some cur
        \<and> purchase_history st' = purchase_history st
        \<and> cfg st' = cfg st
        \<and> (last_history_snapshot st = None \<longrightarrow>
             effects st' = effects st @ evs
                @ send_telegram_message w HistoryCreated (cfg st) (Some chat) @ [CloseSession sub]
             \<and> accumulated_history st' = accumulated_history st)
        \<and> (\<forall>prev. last_history_snapshot st = Some prev \<longrightarrow>
             (\<exists>rep. effects st' = effects st @ evs
                       @ send_telegram_message w (HistorySummary rep) (cfg st) (Some chat)
                       @ [CloseSession sub]
                \<and> time_diff rep = w_time w - snap_time prev
                \<and> block_diff rep = blk - snap_block prev
                \<and> amount_staked rep = sum_list (map ev_stake_amount (accumulated_history st))
                \<and> pnl rep = (wallet + snap_stake_value cur)
                              - (snap_wallet_balance prev + snap_stake_value prev))
             \<and> accumulated_history st' = []
             \<and> (\<exists>rep2. effects st'' = effects st' @ evs2
                       @ send_telegram_message w2 (HistorySummary rep2) (cfg st) (Some chat)
                       @ [CloseSession sub2]
                  \<and> amount_staked rep2 = 0))"
proof -
  let ?cur = "take_snapshot (w_time w) blk info stakes wallet"
  let ?st' = "snd (cmd_history w chat st)"
  note ok = assms(1-3) and ok2 = assms(4-6)
  note frame = cmd_history_frame [OF ok, of chat st]
  have first: "last_history_snapshot st = None \<longrightarrow>
      effects ?st' = effects st @ evs
         @ send_telegram_message w HistoryCreated (cfg st) (Some chat) @ [CloseSession sub]
      \<and> accumulated_history ?st' = accumulated_history st"
    by (simp add: cmd_history_first [OF ok] emit_def send_def)
  have "(\<exists>rep. effects ?st' = effects st @ evs
                 @ send_telegram_message w (HistorySummary rep) (cfg st) (Some chat)
                 @ [CloseSession sub]
            \<and> time_diff rep = w_time w - snap_time prev
            \<and> block_diff rep = blk - snap_block prev
            \<and> amount_staked rep = sum_list (map ev_stake_amount (accumulated_history st))
            \<and> pnl rep = (wallet + snap_stake_value ?cur)
                          - (snap_wallet_balance prev + snap_stake_value prev))
        \<and> accumulated_history ?st' = []
        \<and> (\<exists>rep2. effects (snd (cmd_history w2 chat ?st')) = effects ?st' @ evs2
                 @ send_telegram_message w2 (HistorySummary rep2) (cfg st) (Some chat)
                 @ [CloseSession sub2]
              \<and> amount_staked rep2 = 0)"
    if prev: "last_history_snapshot st = Some prev" for prev
  proof -
    have value_now: "snap_stake_value ?cur
        = sum_list (map (\<lambda>(k, amt). amt * price_of info k) (build_current_stakes stakes []))"
      by (simp add: take_snapshot_def Let_def stake_value_sum_list)
    from cmd_history_summary [OF ok prev, of chat]
    have one: "\<exists>rep. effects ?st' = effects st @ evs
                 @ send_telegram_message w (HistorySummary rep) (cfg st) (Some chat)
                 @ [CloseSession sub]
            \<and> time_diff rep = w_time w - snap_time prev
            \<and> block_diff rep = blk - snap_block prev
            \<and> amount_staked rep = sum_list (map ev_stake_amount (accumulated_history st))
            \<and> pnl rep = (wallet + snap_stake_value ?cur)
                          - (snap_wallet_balance prev + snap_stake_value prev)"
      unfolding value_now .
    have cleared: "accumulated_history ?st' = []"
      by (simp add: cmd_history_next [OF ok prev] emit_def)
    from cmd_history_summary [OF ok2 frame(2), of chat]
    have again: "\<exists>rep2. effects (snd (cmd_history w2 chat ?st')) = effects ?st' @ evs2
                 @ send_telegram_message w2 (HistorySummary rep2) (cfg st) (Some chat)
                 @ [CloseSession sub2]
              \<and> amount_staked rep2 = 0"
      unfolding cleared frame(4) by auto
    from one cleared again show ?thesis by blast
  qed
  with frame first show ?thesis
    unfolding Let_def handle_history by blast
qed

text \<open>
  On the sample data: the first invocation creates the snapshot and keeps the
  accumulated event; the second, 84 seconds and 7 blocks later at a higher price, reports
  3 TAO staked, and empties the buffer; the third reports 0.
\<close>

theorem history_bootstrap_and_reset_witness:
  "last_history_snapshot buffered_state = None
   \<and> effects (snd (handle_telegram_command sample_world history_message buffered_state))
       = [OpenSession ''finney'' 1, TestSession ''finney'', HttpPost 42 HistoryCreated,
          CloseSession (Handle ''finney'')]
   \<and> accumulated_history (snd (handle_telegram_command sample_world history_message buffered_state))
       = [sample_event]
   \<and> accumulated_history snapshot_state = [sample_event]
   \<and> (\<exists>rep. effects (snd (handle_telegram_command repriced_world history_message snapshot_state))
          = effects snapshot_state
              @ [OpenSession ''finney'' 1, TestSession ''finney'', HttpPost 42 (HistorySummary rep),
                 CloseSession (Handle ''finney'')]
        \<and> time_diff rep = 84 \<and> block_diff rep = 7 \<and> amount_staked rep = 3)
   \<and> accumulated_history (snd (handle_telegram_command repriced_world history_message snapshot_state))
       = []
   \<and> (\<exists>rep2. effects (snd (handle_telegram_command repriced_world history_message
                 (snd (handle_telegram_command repriced_world history_message snapshot_state))))
          = effects (snd (handle_telegram_command repriced_world history_message snapshot_state))
              @ [OpenSession ''finney'' 1, TestSession ''finney'', HttpPost 42 (HistorySummary rep2),
                 CloseSession (Handle ''finney'')]
        \<and> amount_staked rep2 = 0)"
proof -
  have none: "last_history_snapshot buffered_state = None"
    and buf: "accumulated_history buffered_state = [sample_event]" "effects buffered_state = []"
      "cfg buffered_state = sample_config"
    by (simp_all add: buffered_state_def sample_state_def)
  have snap: "last_history_snapshot snapshot_state
        = Some \<lparr>snap_time = 5000, snap_block = 100, snap_wallet_balance = 25,
                snap_stake_value = 20, snap_stakes = [(''1'', 10)]\<rparr>"
    and acc: "accumulated_history snapshot_state = [sample_event]"
    and c: "cfg snapshot_state = sample_config"
    by (simp_all add: snapshot_state_eq buffered_state_def sample_state_def)
  have t: "w_time repriced_world = 5084" by (simp add: repriced_world_def sample_world_def)
  note inst1 = history_bootstrap_and_reset
    [OF sample_connect(1) sample_history_queries(1) sample_subnet_info(1)
        sample_connect(2) sample_history_queries(2) sample_subnet_info(2),
     of 42 buffered_state, unfolded Let_def, folded history_message_def]
  note inst2 = history_bootstrap_and_reset
    [OF sample_connect(2) sample_history_queries(2) sample_subnet_info(2)
        sample_connect(2) sample_history_queries(2) sample_subnet_info(2),
     of 42 snapshot_state, unfolded Let_def, folded history_message_def]
  from inst1 none have a:
    "effects (snd (handle_telegram_command sample_world history_message buffered_state))
       = [OpenSession ''finney'' 1, TestSession ''finney'', HttpPost 42 HistoryCreated,
          CloseSession (Handle ''finney'')]"
    "accumulated_history (snd (handle_telegram_command sample_world history_message buffered_state))
       = [sample_event]"
    by (simp_all add: buf sample_send)
  from inst2 snap have b:
    "\<exists>rep. effects (snd (handle_telegram_command repriced_world history_message snapshot_state))
          = effects snapshot_state
              @ [OpenSession ''finney'' 1, TestSession ''finney'', HttpPost 42 (HistorySummary rep),
                 CloseSession (Handle ''finney'')]
        \<and> time_diff rep = 84 \<and> block_diff rep = 7 \<and> amount_staked rep = 3"
    "accumulated_history (snd (handle_telegram_command repriced_world history_message snapshot_state))
       = []"
    "\<exists>rep2. effects (snd (handle_telegram_command repriced_world history_message
                 (snd (handle_telegram_command repriced_world history_message snapshot_state))))
          = effects (snd (handle_telegram_command repriced_world history_message snapshot_state))
              @ [OpenSession ''finney'' 1, TestSession ''finney'', HttpPost 42 (HistorySummary rep2),
                 CloseSession (Handle ''finney'')]
        \<and> amount_staked rep2 = 0"
    by (auto simp add: acc c t sample_send sample_event_def)
  from none a acc b show ?thesis by blast
qed

subsection \<open>C8: the profit/loss figure\<close>

text \<open>
  C8, as the specification states it: the reported profit/loss values the stakes of the
  prior snapshot with the current unit prices (\<open>spec_pnl\<close>). The program does not: the
  prior side of the comparison is the stake value stored in the prior snapshot, computed
  with the prices of the invocation that took it. In the sample run the stake is 10
  units of subnet 1 at both invocations, the wallet is unchanged and the price goes from
  2 to 3. The program reports 10; with both sides at the current price the figure
  would be 0.
\<close>

theorem history_pnl_counterexample:
  "last_history_snapshot snapshot_state
     = Some \<lparr>snap_time = 5000, snap_block = 100, snap_wallet_balance = 25,
             snap_stake_value = 20, snap_stakes = [(''1'', 10)]\<rparr>
   \<and> reported_pnl (effects (snd (handle_telegram_command repriced_world history_message
         snapshot_state))) = [10]
   \<and> history_queries repriced_world = Inr (107, repriced_subnets, [sample_stake], 25)
   \<and> build_subnet_info repriced_subnets Map.empty = Inr repriced_prices
   \<and> spec_pnl repriced_prices
         (the (last_history_snapshot (snd (handle_telegram_command repriced_world history_message
            snapshot_state))))
         (the (last_history_snapshot snapshot_state)) = 0"
proof -
  have snap: "last_history_snapshot snapshot_state
        = Some \<lparr>snap_time = 5000, snap_block = 100, snap_wallet_balance = 25,
                snap_stake_value = 20, snap_stakes = [(''1'', 10)]\<rparr>"
    and c: "cfg snapshot_state = sample_config"
    and acc: "accumulated_history snapshot_state = [sample_event]"
    and eff: "effects snapshot_state
        = [OpenSession ''finney'' 1, TestSession ''finney'', HttpPost 42 HistoryCreated,
           CloseSession (Handle ''finney'')]"
    by (simp_all add: snapshot_state_eq buffered_state_def sample_state_def)
  have t: "w_time repriced_world = 5084" by (simp add: repriced_world_def sample_world_def)
  have run: "handle_telegram_command repriced_world history_message snapshot_state
      = (None, emit [CloseSession (Handle ''finney'')]
          ((send repriced_world
              (HistorySummary
                 (history_summary
                    \<lparr>snap_time = 5000, snap_block = 100, snap_wallet_balance = 25,
                     snap_stake_value = 20, snap_stakes = [(''1'', 10)]\<rparr>
                    [sample_event] repriced_prices
                    \<lparr>snap_time = 5084, snap_block = 107, snap_wallet_balance = 25,
                     snap_stake_value = 30, snap_stakes = [(''1'', 10)]\<rparr>))
              (Some 42)
              (emit [OpenSession ''finney'' 1, TestSession ''finney''] snapshot_state))
           \<lparr>last_history_snapshot :=
              Some \<lparr>snap_time = 5084, snap_block = 107, snap_wallet_balance = 25,
                    snap_stake_value = 30, snap_stakes = [(''1'', 10)]\<rparr>,
            accumulated_history := []\<rparr>))"
    unfolding history_message_def handle_history
      cmd_history_next [OF sample_connect(2) sample_history_queries(2) sample_subnet_info(2) snap]
      t sample_snapshots acc ..
  have reported: "reported_pnl (effects (snd (handle_telegram_command repriced_world
      history_message snapshot_state))) = [10]"
    unfolding run
    by (simp add: emit_def send_def c sample_send eff history_summary_def Let_def)
  have spec: "spec_pnl repriced_prices
         (the (last_history_snapshot (snd (handle_telegram_command repriced_world history_message
            snapshot_state))))
         (the (last_history_snapshot snapshot_state)) = 0"
    unfolding run snap
    by (simp add: emit_def send_def spec_pnl_def price_of_def repriced_prices_def)
  from snap reported sample_history_queries(2) sample_subnet_info(2) spec show ?thesis
    by blast
qed

text \<open>
  C8, amended. For every \<^verbatim>\<open>/history\<close> invocation with a prior snapshot (in a world where
  the handle is acquired and the queries answer), the reported profit/loss is (current
  wallet balance + current aggregate stake value) minus (wallet balance + aggregate stake
  value stored in the prior snapshot); and the aggregate stake value that an invocation
  computes and stores is the sum, over the subnets with a stake entry, of stake amount
  \<times> the unit price listed at that invocation (0 for a subnet that is not listed, and for
  subnet 0). So for two invocations in a row the figure of the second is (second wallet
  + second stakes at the second invocation's prices) minus (first wallet + first stakes
  at the first invocation's prices).
\<close>

theorem history_pnl_snapshot_prices:
  assumes "get_working_subtensor w1 = (Inr sub1, evs1)"
    and "history_queries w1 = Inr (blk1, subnets1, stakes1, wallet1)"
    and "build_subnet_info subnets1 Map.empty = Inr info1"
    and "get_working_subtensor w2 = (Inr sub2, evs2)"
    and "history_queries w2 = Inr (blk2, subnets2, stakes2, wallet2)"
    and "build_subnet_info subnets2 Map.empty = Inr info2"
  shows
    "let msg = \<lparr>m_text = Some ''/history'', m_chat_id = Some chat\<rparr>;
         value1 = sum_list (map (\<lambda>(k, amt). amt * price_of info1 k) (build_current_stakes stakes1 []));
         value2 = sum_list (map (\<lambda>(k, amt). amt * price_of info2 k) (build_current_stakes stakes2 []));
         st1 = snd (handle_telegram_command w1 msg st);
         st2 = snd (handle_telegram_command w2 msg st1)
     in (\<forall>prev. last_history_snapshot st = Some prev \<longrightarrow>
           (\<exists>rep. effects st1 = effects st @ evs1
                     @ send_telegram_message w1 (HistorySummary rep) (cfg st) (Some chat)
                     @ [CloseSession sub1]
              \<and> pnl rep = (wallet1 + value1) - (snap_wallet_balance prev + snap_stake_value prev)))
        \<and> (\<exists>snap1. last_history_snapshot st1 = Some snap1
              \<and> snap_wallet_balance snap1 = wallet1 \<and> snap_stake_value snap1 = value1)
        \<and> (\<exists>rep. effects st2 = effects st1 @ evs2
                     @ send_telegram_message w2 (HistorySummary rep) (cfg st) (Some chat)
                     @ [CloseSession sub2]
              \<and> pnl rep = (wallet2 + value2) - (wallet1 + value1))"
proof -
  let ?v1 = "sum_list (map (\<lambda>(k, amt). amt * price_of info1 k) (build_current_stakes stakes1 []))"
  let ?v2 = "sum_list (map (\<lambda>(k, amt). amt * price_of info2 k) (build_current_stakes stakes2 []))"
  let ?snap1 = "take_snapshot (w_time w1) blk1 info1 stakes1 wallet1"
  let ?st1 = "snd (cmd_history w1 chat st)"
  note ok1 = assms(1-3) and ok2 = assms(4-6)
  note frame = cmd_history_frame [OF ok1, of chat st]
  have stored: "snap_wallet_balance ?snap1 = wallet1" "snap_stake_value ?snap1 = ?v1"
    by (simp_all add: take_snapshot_def Let_def stake_value_sum_list)
  have single: "\<forall>prev. last_history_snapshot st = Some prev \<longrightarrow>
           (\<exists>rep. effects ?st1 = effects st @ evs1
                     @ send_telegram_message w1 (HistorySummary rep) (cfg st) (Some chat)
                     @ [CloseSession sub1]
              \<and> pnl rep = (wallet1 + ?v1) - (snap_wallet_balance prev + snap_stake_value prev))"
    using cmd_history_summary [OF ok1, of st _ chat] by blast
  have kept: "\<exists>snap1. last_history_snapshot ?st1 = Some snap1
              \<and> snap_wallet_balance snap1 = wallet1 \<and> snap_stake_value snap1 = ?v1"
    using frame(2) stored by blast
  have pair: "\<exists>rep. effects (snd (cmd_history w2 chat ?st1)) = effects ?st1 @ evs2
                     @ send_telegram_message w2 (HistorySummary rep) (cfg st) (Some chat)
                     @ [CloseSession sub2]
              \<and> pnl rep = (wallet2 + ?v2) - (wallet1 + ?v1)"
    using cmd_history_summary [OF ok2 frame(2), of chat] unfolding stored frame(4) by blast
  from single kept pair show ?thesis
    unfolding Let_def handle_history by blast
qed

text \<open>
  The sample run again: the second invocation reports (25 + 10 \<times> 3) - (25 + 10 \<times> 2) = 10.
\<close>

theorem history_pnl_snapshot_prices_witness:
  "\<exists>rep. effects (snd (handle_telegram_command repriced_world history_message
              (snd (handle_telegram_command sample_world history_message buffered_state))))
         = effects (snd (handle_telegram_command sample_world history_message buffered_state))
             @ [OpenSession ''finney'' 1, TestSession ''finney'', HttpPost 42 (HistorySummary rep),
                CloseSession (Handle ''finney'')]
       \<and> pnl rep = 10"
proof -
  have v: "build_current_stakes [sample_stake] [] = [(''1'', 10)]"
    "price_of sample_prices ''1'' = 2" "price_of repriced_prices ''1'' = 3"
    by (simp_all add: sample_stake_def stake_amt_of_def price_of_def sample_prices_def
        repriced_prices_def)
  have c: "cfg buffered_state = sample_config"
    by (simp add: buffered_state_def sample_state_def)
  from history_pnl_snapshot_prices
    [OF sample_connect(1) sample_history_queries(1) sample_subnet_info(1)
        sample_connect(2) sample_history_queries(2) sample_subnet_info(2),
     of 42 buffered_state, unfolded Let_def, folded history_message_def]
  show ?thesis
    by (auto simp add: v c sample_send sample_stake_def stake_amt_of_def)
qed

subsection \<open>C9: /balance with a positive stake\<close>

text \<open>
  C9 fails on the program. In the sample world the handle is acquired, the three queries
  answer, and the position list holds a stake of 10 on subnet 1. Building the line for
  it reads \<^verbatim>\<open>stake_info.symbol\<close> on the list of positions and raises
  \<^verbatim>\<open>AttributeError\<close> outside any \<^verbatim>\<open>try\<close>: the handler raises, no text is posted
  and the session that was opened and tested is never closed.
\<close>

theorem balance_positive_stake_raises:
  "handle_telegram_command sample_world \<lparr>m_text = Some ''/balance'', m_chat_id = Some 42\<rparr>
     sample_state
     = (Some AttributeError,
        sample_state\<lparr>effects := [OpenSession ''finney'' 1, TestSession ''finney'']\<rparr>)"
proof -
  have q: "balance_queries sample_world = Inr (100, [sample_stake], 25)"
    by (simp add: balance_queries_def sample_world_def)
  show ?thesis
    unfolding handle_balance cmd_balance_def sample_connect(1) q
    by (simp add: sample_stake_def stake_amt_of_def emit_def sample_state_def)
qed

subsection \<open>C10: endpoint failover\<close>




end
